theory Spec2Isabelle
  imports Main "HOL-Library.Char_ord" "HOL-Library.List_Lexorder"
begin

section \<open>The gateway API client (internal/services/gateway/api/client.go)\<close>

text \<open>
  A shallow embedding of the Go client. Go strings are byte strings (\<open>string\<close>),
  a Go \<open>error\<close> is a value carrying its text, a nil pointer or nil error is \<open>None\<close>.
  The functions of the Go standard library that the client calls are not part of the
  repository. The pure ones (\<open>path.Join\<close>, \<open>url.Values\<close>, \<open>strconv.Itoa\<close>,
  \<open>strings.TrimSuffix\<close>) are written out as the library documents them; the ones
  that depend on the outside world or on types declared elsewhere (\<open>url.Parse\<close>,
  \<open>URL.String\<close>, \<open>http.NewRequest\<close>, the JSON codec, the HTTP transport) are
  parameters of the model.
\<close>

subsection \<open>Values of the Go runtime\<close>

datatype error = Err (Error: string)

text \<open>\<open>errors.New(text)\<close>: an error whose \<open>Error()\<close> is the text.\<close>

definition errors_New :: "string \<Rightarrow> error" where
  "errors_New s = Err s"

text \<open>A \<open>context.Context\<close> is an interface value: it may be nil.\<close>

datatype Context = NilContext | Ctx string

text \<open>The run-time panics the client can reach.\<close>

datatype panic = NilContextPanic | NilPointerDereference

text \<open>\<open>http.Header\<close> is \<open>map[string][]string\<close>.\<close>

type_synonym header = "string \<rightharpoonup> string list"

text \<open>
  \<open>url.Values\<close> is \<open>map[string][]string\<close>; the keys are kept in a list without
  repetition so that they can be enumerated. A nil map and an empty one are both \<open>[]\<close>.
\<close>

type_synonym Values = "(string \<times> string list) list"

record URL =
  Scheme :: string
  Opaque :: string
  User :: "string option"
  Host :: string
  Path :: string
  RawPath :: string
  ForceQuery :: bool
  RawQuery :: string
  Fragment :: string

text \<open>
  A response body is a stream: \<open>body_data\<close> are the bytes it delivers and
  \<open>body_err\<close> the error (other than EOF) at which reading stops, if any.
\<close>

record body =
  body_data :: string
  body_err :: "error option"

record request =
  Method :: string
  RequestURL :: string
  ReqHeader :: header
  ReqBody :: "string option"
  ReqContext :: Context

record response =
  StatusCode :: int
  Status :: string
  RespHeader :: header
  Body :: body

text \<open>
  What a call does to the outside world, in order: a request handed to the HTTP
  client, the response body read to its end, a JSON value decoded from the response
  body, the response body closed.
\<close>

datatype event = EvDo request | EvReadAll | EvDecode | EvClose

text \<open>A call returns its results after some events, or panics.\<close>

datatype 'a outcome = Returns 'a "event list" | Panics panic

subsection \<open>Standard library: integers and strings\<close>

text \<open>Go's integer division truncates towards zero.\<close>

definition go_div :: "int \<Rightarrow> int \<Rightarrow> int" where
  "go_div a b = sgn a * sgn b * (\<bar>a\<bar> div \<bar>b\<bar>)"

definition digit_char :: "nat \<Rightarrow> char" where
  "digit_char d = ''0123456789'' ! d"

fun decimal :: "nat \<Rightarrow> string" where
  "decimal n = (if n < 10 then [digit_char n] else decimal (n div 10) @ [digit_char (n mod 10)])"

text \<open>\<open>strconv.Itoa\<close>.\<close>

definition strconv_Itoa :: "int \<Rightarrow> string" where
  "strconv_Itoa i = (if i < 0 then CHR ''-'' # decimal (nat (- i)) else decimal (nat i))"

text \<open>\<open>strings.TrimSuffix\<close>.\<close>

definition strings_TrimSuffix :: "string \<Rightarrow> string \<Rightarrow> string" where
  "strings_TrimSuffix s suffix =
     (if length suffix \<le> length s \<and> drop (length s - length suffix) s = suffix
      then take (length s - length suffix) s else s)"

text \<open>\<open>strings.Join\<close>.\<close>

fun strings_Join :: "string list \<Rightarrow> string \<Rightarrow> string" where
  "strings_Join [] sep = []"
| "strings_Join [x] sep = x"
| "strings_Join (x # y # zs) sep = x @ sep @ strings_Join (y # zs) sep"

subsection \<open>Standard library: path.Join\<close>

text \<open>The elements of a path: the pieces between its slashes.\<close>

fun split_slash :: "string \<Rightarrow> string list" where
  "split_slash [] = [[]]"
| "split_slash (c # cs) =
     (if c = CHR ''/'' then [] # split_slash cs
      else (case split_slash cs of [] \<Rightarrow> [[c]] | w # ws \<Rightarrow> (c # w) # ws))"

text \<open>
  \<open>path.Clean\<close> works element by element: empty elements and \<open>.\<close> are dropped,
  \<open>..\<close> removes the element before it, is dropped at the root, and is kept at the
  start of a path that is not rooted. \<open>out\<close> holds the elements kept so far, the
  last one first.
\<close>

fun clean_elems :: "bool \<Rightarrow> string list \<Rightarrow> string list \<Rightarrow> string list" where
  "clean_elems rooted [] out = rev out"
| "clean_elems rooted (e # es) out =
     (if e = [] \<or> e = ''.'' then clean_elems rooted es out
      else if e = ''..'' then
        (case out of
           [] \<Rightarrow> if rooted then clean_elems rooted es [] else clean_elems rooted es [''..'']
         | x # xs \<Rightarrow> if x = ''..'' then clean_elems rooted es (''..'' # out)
                     else clean_elems rooted es xs)
      else clean_elems rooted es (e # out))"

definition path_Clean :: "string \<Rightarrow> string" where
  "path_Clean p =
     (if p = [] then ''.''
      else
        let rooted = (hd p = CHR ''/'');
            out = clean_elems rooted (split_slash p) []
        in if rooted then CHR ''/'' # strings_Join out ''/''
           else if out = [] then ''.'' else strings_Join out ''/'')"

text \<open>
  \<open>path.Join\<close>: the elements from the first non-empty one on are joined with
  slashes and the result is cleaned; with no non-empty element the result is empty.
\<close>

definition path_Join :: "string list \<Rightarrow> string" where
  "path_Join elem =
     (case dropWhile (\<lambda>e. e = []) elem of
        [] \<Rightarrow> []
      | e # es \<Rightarrow> path_Clean (strings_Join (e # es) ''/''))"

subsection \<open>Standard library: url.Values\<close>

text \<open>\<open>Values.Add\<close> appends the value to the values of the key.\<close>

fun Values_Add :: "Values \<Rightarrow> string \<Rightarrow> string \<Rightarrow> Values" where
  "Values_Add [] k v = [(k, [v])]"
| "Values_Add ((k', vs) # q) k v =
     (if k' = k then (k', vs @ [v]) # q else (k', vs) # Values_Add q k v)"

text \<open>
  \<open>url.QueryEscape\<close>: letters, digits and \<open>-_.~\<close> stand for themselves, a space
  becomes \<open>+\<close>, every other byte becomes \<open>%XX\<close> in upper-case hexadecimal.
\<close>

definition unreserved :: "char \<Rightarrow> bool" where
  "unreserved c \<longleftrightarrow>
     c \<in> set ''abcdefghijklmnopqrstuvwxyzABCDEFGHIJKLMNOPQRSTUVWXYZ0123456789-_.~''"

definition hex_digit :: "nat \<Rightarrow> char" where
  "hex_digit d = ''0123456789ABCDEF'' ! d"

definition escape_byte :: "char \<Rightarrow> string" where
  "escape_byte c =
     (if unreserved c then [c]
      else if c = CHR '' '' then ''+''
      else [CHR ''%'', hex_digit (of_char c div 16), hex_digit (of_char c mod 16)])"

definition QueryEscape :: "string \<Rightarrow> string" where
  "QueryEscape s = concat (map escape_byte s)"

text \<open>
  \<open>Values.Encode\<close>: the keys in sorted order; for each key its values in their
  order, as \<open>key=value\<close>, with \<open>&\<close> before every pair but the first.
\<close>

definition encode_pair :: "string \<Rightarrow> string \<Rightarrow> string \<Rightarrow> string" where
  "encode_pair k buf v =
     (if buf = [] then buf else buf @ ''&'') @ QueryEscape k @ ''='' @ QueryEscape v"

definition Values_Encode :: "Values \<Rightarrow> string" where
  "Values_Encode q =
     foldl (\<lambda>buf k. foldl (encode_pair k) buf (case map_of q k of None \<Rightarrow> [] | Some vs \<Rightarrow> vs))
       [] (sort (map fst q))"

subsection \<open>What the model takes from outside the repository\<close>

text \<open>
  The request payloads and the typed results (\<open>CreateUserRequest\<close>,
  \<open>types.Project\<close>, ...) are declared in other files: they are the type parameters
  \<open>'p\<close> and \<open>'r\<close>. \<open>zero_value\<close> is what \<open>new(T)\<close> points to.
  \<open>json_Decode\<close> decodes the response body into a structure (the argument is the
  structure before, the result the structure after: a decoder may fill part of it
  and fail). \<open>json_Decode_ptr\<close> decodes into a pointer to the structure (the list
  operations pass \<open>&projects\<close>), so it may also set the pointer to nil.
  \<open>NewRequest_error\<close> is the error of \<open>http.NewRequest(method, url, body)\<close>, if any.
\<close>

record ('p, 'r) stdlib =
  url_Parse :: "string \<Rightarrow> error + URL"
  URL_String :: "URL \<Rightarrow> string"
  NewRequest_error :: "string \<Rightarrow> string \<Rightarrow> error option"
  json_Marshal :: "'p \<Rightarrow> error + string"
  json_Decode :: "body \<Rightarrow> 'r \<Rightarrow> 'r \<times> error option"
  json_Decode_ptr :: "body \<Rightarrow> 'r option \<Rightarrow> 'r option \<times> error option"
  zero_value :: 'r

text \<open>
  \<open>http.Client.Do\<close>: an error or a response. The \<open>*http.Client\<close> the client
  holds is a pointer and may be nil.
\<close>

type_synonym http_Client = "request \<Rightarrow> error + response"

subsection \<open>The client\<close>

definition jsonContent :: header where
  "jsonContent = [''content-type'' \<mapsto> [''application/json'']]"

record Client =
  url :: string
  client :: "http_Client option"
  token :: string

text \<open>\<open>&http.Client{}\<close> is the argument \<open>default_client\<close>.\<close>

definition NewClient :: "http_Client \<Rightarrow> string \<Rightarrow> string \<Rightarrow> Client" where
  "NewClient default_client u tok =
     \<lparr>url = strings_TrimSuffix u ''/'', client = Some default_client, token = tok\<rparr>"

definition SetHTTPClient :: "Client \<Rightarrow> http_Client option \<Rightarrow> Client" where
  "SetHTTPClient c cl = c\<lparr>client := cl\<rparr>"

text \<open>
  \<open>http.NewRequest\<close> returns a nil request with its error, or a request with an
  empty header and the background context.
\<close>

definition http_NewRequest ::
  "('p, 'r) stdlib \<Rightarrow> string \<Rightarrow> string \<Rightarrow> string option \<Rightarrow> request option \<times> error option" where
  "http_NewRequest env method urlStr ibody =
     (case NewRequest_error env method urlStr of
        Some e \<Rightarrow> (None, Some e)
      | None \<Rightarrow>
          (Some \<lparr>Method = method, RequestURL = urlStr, ReqHeader = Map.empty,
                 ReqBody = ibody, ReqContext = Ctx ''background''\<rparr>, None))"

text \<open>
  \<open>req.WithContext(ctx)\<close> panics on a nil context, and dereferences \<open>req\<close> to
  copy it.
\<close>

definition Request_WithContext :: "request option \<Rightarrow> Context \<Rightarrow> panic + request" where
  "Request_WithContext req ctx =
     (if ctx = NilContext then Inl NilContextPanic
      else case req of
             None \<Rightarrow> Inl NilPointerDereference
           | Some r \<Rightarrow> Inr (r\<lparr>ReqContext := ctx\<rparr>))"

text \<open>\<open>Header.Set\<close> with a key that is already in canonical form.\<close>

definition Header_Set :: "header \<Rightarrow> string \<Rightarrow> string \<Rightarrow> header" where
  "Header_Set h k v = h(k \<mapsto> [v])"

definition http_Client_Do :: "http_Client option \<Rightarrow> request \<Rightarrow> (error + response) outcome" where
  "http_Client_Do cl req =
     (case cl of
        None \<Rightarrow> Panics NilPointerDereference
      | Some tr \<Rightarrow> Returns (tr req) [EvDo req])"

definition doRequest ::
  "('p, 'r) stdlib \<Rightarrow> Client \<Rightarrow> Context \<Rightarrow> string \<Rightarrow> string \<Rightarrow> Values \<Rightarrow> header \<Rightarrow>
     string option \<Rightarrow> (error + response) outcome" where
  "doRequest env c ctx method path query hdr ibody =
     (case url_Parse env (url c @ ''/api/v1alpha'' @ path) of
        Inl err \<Rightarrow> Returns (Inl err) []
      | Inr u0 \<Rightarrow>
          let u = u0\<lparr>RawQuery := Values_Encode query\<rparr>;
              (req0, err) = http_NewRequest env method (URL_String env u) ibody
          in case Request_WithContext req0 ctx of
               Inl p \<Rightarrow> Panics p
             | Inr req1 \<Rightarrow>
                 (case err of
                    Some e \<Rightarrow> Returns (Inl e) []
                  | None \<Rightarrow>
                      let req2 = req1\<lparr>ReqHeader :=
                                   Header_Set (ReqHeader req1) ''Authorization'' (''token '' @ token c)\<rparr>;
                          req3 = req2\<lparr>ReqHeader := ReqHeader req2 ++ hdr\<rparr>
                      in http_Client_Do (client c) req3))"

text \<open>\<open>ioutil.ReadAll\<close>: the bytes read and the error that stopped the reading.\<close>

definition ioutil_ReadAll :: "body \<Rightarrow> string \<times> error option" where
  "ioutil_ReadAll b = (body_data b, body_err b)"

definition getResponse ::
  "('p, 'r) stdlib \<Rightarrow> Client \<Rightarrow> Context \<Rightarrow> string \<Rightarrow> string \<Rightarrow> Values \<Rightarrow> header \<Rightarrow>
     string option \<Rightarrow> (response option \<times> error option) outcome" where
  "getResponse env c ctx method path query hdr ibody =
     (case doRequest env c ctx method path query hdr ibody of
        Panics p \<Rightarrow> Panics p
      | Returns (Inl err) evs \<Rightarrow> Returns (None, Some err) evs
      | Returns (Inr resp) evs \<Rightarrow>
          if go_div (StatusCode resp) 100 \<noteq> 2 then
            (let (data, err) = ioutil_ReadAll (Body resp);
                 evs' = evs @ [EvReadAll, EvClose]
             in case err of
                  Some e \<Rightarrow> Returns (None, Some e) evs'
                | None \<Rightarrow>
                    if length data \<le> 1 then Returns (Some resp, Some (errors_New (Status resp))) evs'
                    else Returns (Some resp, Some (errors_New data)) evs')
          else Returns (Some resp, None) evs)"

text \<open>
  \<open>obj\<close> is the structure the caller's pointer refers to; the structure as the
  decoder left it is returned with the response and the error.
\<close>

definition getParsedResponse ::
  "('p, 'r) stdlib \<Rightarrow> Client \<Rightarrow> Context \<Rightarrow> string \<Rightarrow> string \<Rightarrow> Values \<Rightarrow> header \<Rightarrow>
     string option \<Rightarrow> (body \<Rightarrow> 'o \<Rightarrow> 'o \<times> error option) \<Rightarrow> 'o \<Rightarrow>
     ('o \<times> response option \<times> error option) outcome" where
  "getParsedResponse env c ctx method path query hdr ibody decode obj =
     (case getResponse env c ctx method path query hdr ibody of
        Panics p \<Rightarrow> Panics p
      | Returns (resp, err) evs \<Rightarrow>
          (case err of
             Some e \<Rightarrow> Returns (obj, resp, Some e) evs
           | None \<Rightarrow>
               (case resp of
                  None \<Rightarrow> Panics NilPointerDereference
                | Some r \<Rightarrow>
                    let (obj', derr) = decode (Body r) obj
                    in Returns (obj', Some r, derr) (evs @ [EvDecode, EvClose]))))"

text \<open>The list operations build their query the same way.\<close>

definition list_query :: "string \<Rightarrow> int \<Rightarrow> bool \<Rightarrow> Values \<Rightarrow> Values" where
  "list_query start limit asc q0 =
     (let q1 = (if start \<noteq> [] then Values_Add q0 ''start'' start else q0);
          q2 = (if limit > 0 then Values_Add q1 ''limit'' (strconv_Itoa limit) else q1);
          q3 = (if asc then Values_Add q2 ''asc'' [] else q2)
      in q3)"

text \<open>
  A result that points to the structure: \<open>return project, resp, err\<close> where
  \<open>project\<close> came from \<open>new\<close>.
\<close>

definition pointer_to :: "('r \<times> response option \<times> error option) outcome \<Rightarrow>
     ('r option \<times> response option \<times> error option) outcome" where
  "pointer_to = map_outcome (\<lambda>(obj, resp, err). (Some obj, resp, err))"

definition GetProject ::
  "('p, 'r) stdlib \<Rightarrow> Client \<Rightarrow> Context \<Rightarrow> string \<Rightarrow>
     ('r option \<times> response option \<times> error option) outcome" where
  "GetProject env c ctx projectID =
     (let project = zero_value env
      in pointer_to (getParsedResponse env c ctx ''GET'' (''/project/'' @ projectID) []
           jsonContent None (json_Decode env) project))"

definition getProjects ::
  "('p, 'r) stdlib \<Rightarrow> Client \<Rightarrow> Context \<Rightarrow> string \<Rightarrow> string \<Rightarrow> string \<Rightarrow> int \<Rightarrow> bool \<Rightarrow>
     ('r option \<times> response option \<times> error option) outcome" where
  "getProjects env c ctx ownertype ownername start limit asc =
     (let q = list_query start limit asc [];
          projects = Some (zero_value env)
      in getParsedResponse env c ctx ''GET'' (path_Join [''/'', ownertype, ownername, ''projects''])
           q jsonContent None (json_Decode_ptr env) projects)"

definition GetCurrentUserProjects ::
  "('p, 'r) stdlib \<Rightarrow> Client \<Rightarrow> Context \<Rightarrow> string \<Rightarrow> int \<Rightarrow> bool \<Rightarrow>
     ('r option \<times> response option \<times> error option) outcome" where
  "GetCurrentUserProjects env c ctx start limit asc =
     getProjects env c ctx ''user'' [] start limit asc"

definition GetUserProjects ::
  "('p, 'r) stdlib \<Rightarrow> Client \<Rightarrow> Context \<Rightarrow> string \<Rightarrow> string \<Rightarrow> int \<Rightarrow> bool \<Rightarrow>
     ('r option \<times> response option \<times> error option) outcome" where
  "GetUserProjects env c ctx username start limit asc =
     getProjects env c ctx ''user'' username start limit asc"

definition GetOrgProjects ::
  "('p, 'r) stdlib \<Rightarrow> Client \<Rightarrow> Context \<Rightarrow> string \<Rightarrow> string \<Rightarrow> int \<Rightarrow> bool \<Rightarrow>
     ('r option \<times> response option \<times> error option) outcome" where
  "GetOrgProjects env c ctx orgname start limit asc =
     getProjects env c ctx ''org'' orgname start limit asc"

definition createProject ::
  "('p, 'r) stdlib \<Rightarrow> Client \<Rightarrow> Context \<Rightarrow> string \<Rightarrow> string \<Rightarrow> 'p \<Rightarrow>
     ('r option \<times> response option \<times> error option) outcome" where
  "createProject env c ctx ownertype ownername req =
     (case json_Marshal env req of
        Inl err \<Rightarrow> Returns (None, None, Some err) []
      | Inr reqj \<Rightarrow>
          let project = zero_value env
          in pointer_to (getParsedResponse env c ctx ''PUT''
               (path_Join [''/'', ownertype, ownername, ''projects'']) [] jsonContent (Some reqj)
               (json_Decode env) project))"

definition CreateCurrentUserProject ::
  "('p, 'r) stdlib \<Rightarrow> Client \<Rightarrow> Context \<Rightarrow> 'p \<Rightarrow>
     ('r option \<times> response option \<times> error option) outcome" where
  "CreateCurrentUserProject env c ctx req = createProject env c ctx ''user'' [] req"

definition CreateUserProject ::
  "('p, 'r) stdlib \<Rightarrow> Client \<Rightarrow> Context \<Rightarrow> string \<Rightarrow> 'p \<Rightarrow>
     ('r option \<times> response option \<times> error option) outcome" where
  "CreateUserProject env c ctx username req = createProject env c ctx ''user'' username req"

definition CreateOrgProject ::
  "('p, 'r) stdlib \<Rightarrow> Client \<Rightarrow> Context \<Rightarrow> string \<Rightarrow> 'p \<Rightarrow>
     ('r option \<times> response option \<times> error option) outcome" where
  "CreateOrgProject env c ctx orgname req = createProject env c ctx ''org'' orgname req"

definition deleteProject ::
  "('p, 'r) stdlib \<Rightarrow> Client \<Rightarrow> Context \<Rightarrow> string \<Rightarrow> string \<Rightarrow> string \<Rightarrow>
     (response option \<times> error option) outcome" where
  "deleteProject env c ctx ownertype ownername projectName =
     getResponse env c ctx ''DELETE'' (path_Join [''/projects'', ownertype, ownername, projectName])
       [] jsonContent None"

definition DeleteCurrentUserProject ::
  "('p, 'r) stdlib \<Rightarrow> Client \<Rightarrow> Context \<Rightarrow> string \<Rightarrow> (response option \<times> error option) outcome" where
  "DeleteCurrentUserProject env c ctx projectName = deleteProject env c ctx ''user'' [] projectName"

definition DeleteUserProject ::
  "('p, 'r) stdlib \<Rightarrow> Client \<Rightarrow> Context \<Rightarrow> string \<Rightarrow> string \<Rightarrow>
     (response option \<times> error option) outcome" where
  "DeleteUserProject env c ctx username projectName =
     deleteProject env c ctx ''user'' username projectName"

definition DeleteOrgProject ::
  "('p, 'r) stdlib \<Rightarrow> Client \<Rightarrow> Context \<Rightarrow> string \<Rightarrow> string \<Rightarrow>
     (response option \<times> error option) outcome" where
  "DeleteOrgProject env c ctx orgname projectName =
     deleteProject env c ctx ''org'' orgname projectName"

definition ReconfigProject ::
  "('p, 'r) stdlib \<Rightarrow> Client \<Rightarrow> Context \<Rightarrow> string \<Rightarrow> (response option \<times> error option) outcome" where
  "ReconfigProject env c ctx projectName =
     getResponse env c ctx ''POST'' (''/projects/'' @ projectName @ ''/reconfig'') [] jsonContent None"

definition GetUser ::
  "('p, 'r) stdlib \<Rightarrow> Client \<Rightarrow> Context \<Rightarrow> string \<Rightarrow>
     ('r option \<times> response option \<times> error option) outcome" where
  "GetUser env c ctx userID =
     (let user = zero_value env
      in pointer_to (getParsedResponse env c ctx ''GET'' (''/user/'' @ userID) []
           jsonContent None (json_Decode env) user))"

definition GetUsers ::
  "('p, 'r) stdlib \<Rightarrow> Client \<Rightarrow> Context \<Rightarrow> string \<Rightarrow> int \<Rightarrow> bool \<Rightarrow>
     ('r option \<times> response option \<times> error option) outcome" where
  "GetUsers env c ctx start limit asc =
     (let q = list_query start limit asc [];
          users = Some (zero_value env)
      in getParsedResponse env c ctx ''GET'' ''/users'' q jsonContent None
           (json_Decode_ptr env) users)"

definition CreateUser ::
  "('p, 'r) stdlib \<Rightarrow> Client \<Rightarrow> Context \<Rightarrow> 'p \<Rightarrow>
     ('r option \<times> response option \<times> error option) outcome" where
  "CreateUser env c ctx req =
     (case json_Marshal env req of
        Inl err \<Rightarrow> Returns (None, None, Some err) []
      | Inr reqj \<Rightarrow>
          let user = zero_value env
          in pointer_to (getParsedResponse env c ctx ''PUT'' ''/users'' [] jsonContent (Some reqj)
               (json_Decode env) user))"

definition DeleteUser ::
  "('p, 'r) stdlib \<Rightarrow> Client \<Rightarrow> Context \<Rightarrow> string \<Rightarrow> (response option \<times> error option) outcome" where
  "DeleteUser env c ctx userName =
     getResponse env c ctx ''DELETE'' (''/users/'' @ userName) [] jsonContent None"

definition CreateUserLA ::
  "('p, 'r) stdlib \<Rightarrow> Client \<Rightarrow> Context \<Rightarrow> string \<Rightarrow> 'p \<Rightarrow>
     ('r option \<times> response option \<times> error option) outcome" where
  "CreateUserLA env c ctx userName req =
     (case json_Marshal env req of
        Inl err \<Rightarrow> Returns (None, None, Some err) []
      | Inr reqj \<Rightarrow>
          let la = zero_value env
          in pointer_to (getParsedResponse env c ctx ''PUT''
               (''/users/'' @ userName @ ''/linkedaccounts'') [] jsonContent (Some reqj)
               (json_Decode env) la))"

definition DeleteUserLA ::
  "('p, 'r) stdlib \<Rightarrow> Client \<Rightarrow> Context \<Rightarrow> string \<Rightarrow> string \<Rightarrow>
     (response option \<times> error option) outcome" where
  "DeleteUserLA env c ctx userName laID =
     getResponse env c ctx ''DELETE'' (''/users/'' @ userName @ ''/linkedaccounts/'' @ laID) []
       jsonContent None"

definition CreateUserToken ::
  "('p, 'r) stdlib \<Rightarrow> Client \<Rightarrow> Context \<Rightarrow> string \<Rightarrow> 'p \<Rightarrow>
     ('r option \<times> response option \<times> error option) outcome" where
  "CreateUserToken env c ctx userName req =
     (case json_Marshal env req of
        Inl err \<Rightarrow> Returns (None, None, Some err) []
      | Inr reqj \<Rightarrow>
          let tresp = zero_value env
          in pointer_to (getParsedResponse env c ctx ''PUT'' (''/users/'' @ userName @ ''/tokens'') []
               jsonContent (Some reqj) (json_Decode env) tresp))"

definition GetRun ::
  "('p, 'r) stdlib \<Rightarrow> Client \<Rightarrow> Context \<Rightarrow> string \<Rightarrow>
     ('r option \<times> response option \<times> error option) outcome" where
  "GetRun env c ctx runID =
     (let run = zero_value env
      in pointer_to (getParsedResponse env c ctx ''GET'' (''/run/'' @ runID) []
           jsonContent None (json_Decode env) run))"

definition GetRuns ::
  "('p, 'r) stdlib \<Rightarrow> Client \<Rightarrow> Context \<Rightarrow> string list \<Rightarrow> string list \<Rightarrow> string list \<Rightarrow>
     string \<Rightarrow> int \<Rightarrow> bool \<Rightarrow> ('r option \<times> response option \<times> error option) outcome" where
  "GetRuns env c ctx phaseFilter groups runGroups start limit asc =
     (let q0 = foldl (\<lambda>q phase. Values_Add q ''phase'' phase) [] phaseFilter;
          q1 = foldl (\<lambda>q group. Values_Add q ''group'' group) q0 groups;
          q2 = foldl (\<lambda>q runGroup. Values_Add q ''rungroup'' runGroup) q1 runGroups;
          q = list_query start limit asc q2;
          getRunsResponse = zero_value env
      in pointer_to (getParsedResponse env c ctx ''GET'' ''/runs'' q jsonContent None
           (json_Decode env) getRunsResponse))"

definition GetRemoteSource ::
  "('p, 'r) stdlib \<Rightarrow> Client \<Rightarrow> Context \<Rightarrow> string \<Rightarrow>
     ('r option \<times> response option \<times> error option) outcome" where
  "GetRemoteSource env c ctx rsID =
     (let rs = zero_value env
      in pointer_to (getParsedResponse env c ctx ''GET'' (''/remotesource/'' @ rsID) []
           jsonContent None (json_Decode env) rs))"

definition GetRemoteSources ::
  "('p, 'r) stdlib \<Rightarrow> Client \<Rightarrow> Context \<Rightarrow> string \<Rightarrow> int \<Rightarrow> bool \<Rightarrow>
     ('r option \<times> response option \<times> error option) outcome" where
  "GetRemoteSources env c ctx start limit asc =
     (let q = list_query start limit asc [];
          rss = Some (zero_value env)
      in getParsedResponse env c ctx ''GET'' ''/remotesources'' q jsonContent None
           (json_Decode_ptr env) rss)"

definition CreateRemoteSource ::
  "('p, 'r) stdlib \<Rightarrow> Client \<Rightarrow> Context \<Rightarrow> 'p \<Rightarrow>
     ('r option \<times> response option \<times> error option) outcome" where
  "CreateRemoteSource env c ctx req =
     (case json_Marshal env req of
        Inl err \<Rightarrow> Returns (None, None, Some err) []
      | Inr uj \<Rightarrow>
          let rs = zero_value env
          in pointer_to (getParsedResponse env c ctx ''PUT'' ''/remotesources'' [] jsonContent
               (Some uj) (json_Decode env) rs))"

definition DeleteRemoteSource ::
  "('p, 'r) stdlib \<Rightarrow> Client \<Rightarrow> Context \<Rightarrow> string \<Rightarrow> (response option \<times> error option) outcome" where
  "DeleteRemoteSource env c ctx name =
     getResponse env c ctx ''DELETE'' (''/remotesources/'' @ name) [] jsonContent None"

definition CreateOrg ::
  "('p, 'r) stdlib \<Rightarrow> Client \<Rightarrow> Context \<Rightarrow> 'p \<Rightarrow>
     ('r option \<times> response option \<times> error option) outcome" where
  "CreateOrg env c ctx req =
     (case json_Marshal env req of
        Inl err \<Rightarrow> Returns (None, None, Some err) []
      | Inr reqj \<Rightarrow>
          let org = zero_value env
          in pointer_to (getParsedResponse env c ctx ''PUT'' ''/orgs'' [] jsonContent (Some reqj)
               (json_Decode env) org))"

definition DeleteOrg ::
  "('p, 'r) stdlib \<Rightarrow> Client \<Rightarrow> Context \<Rightarrow> string \<Rightarrow> (response option \<times> error option) outcome" where
  "DeleteOrg env c ctx orgName =
     getResponse env c ctx ''DELETE'' (''/orgs/'' @ orgName) [] jsonContent None"

subsection \<open>The public operations as one interface\<close>

text \<open>
  To speak about every public operation at once, a call of the client is a value,
  and \<open>run\<close> performs it. Operations that return \<open>(result, response, error)\<close>
  give a \<open>Typed\<close> result, those that return \<open>(response, error)\<close> an \<open>Untyped\<close> one.
\<close>

datatype 'p call =
    Call_GetProject string
  | Call_GetCurrentUserProjects string int bool
  | Call_GetUserProjects string string int bool
  | Call_GetOrgProjects string string int bool
  | Call_CreateCurrentUserProject 'p
  | Call_CreateUserProject string 'p
  | Call_CreateOrgProject string 'p
  | Call_DeleteCurrentUserProject string
  | Call_DeleteUserProject string string
  | Call_DeleteOrgProject string string
  | Call_ReconfigProject string
  | Call_GetUser string
  | Call_GetUsers string int bool
  | Call_CreateUser 'p
  | Call_DeleteUser string
  | Call_CreateUserLA string 'p
  | Call_DeleteUserLA string string
  | Call_CreateUserToken string 'p
  | Call_GetRun string
  | Call_GetRuns "string list" "string list" "string list" string int bool
  | Call_GetRemoteSource string
  | Call_GetRemoteSources string int bool
  | Call_CreateRemoteSource 'p
  | Call_DeleteRemoteSource string
  | Call_CreateOrg 'p
  | Call_DeleteOrg string

datatype 'r result =
    Typed "'r option" "response option" "error option"
  | Untyped "response option" "error option"

fun result_resp :: "'r result \<Rightarrow> response option" where
  "result_resp (Typed obj resp err) = resp"
| "result_resp (Untyped resp err) = resp"

fun result_err :: "'r result \<Rightarrow> error option" where
  "result_err (Typed obj resp err) = err"
| "result_err (Untyped resp err) = err"

definition typed :: "('r option \<times> response option \<times> error option) outcome \<Rightarrow> 'r result outcome" where
  "typed = map_outcome (\<lambda>(obj, resp, err). Typed obj resp err)"

definition untyped :: "(response option \<times> error option) outcome \<Rightarrow> 'r result outcome" where
  "untyped = map_outcome (\<lambda>(resp, err). Untyped resp err)"

fun run :: "('p, 'r) stdlib \<Rightarrow> Client \<Rightarrow> Context \<Rightarrow> 'p call \<Rightarrow> 'r result outcome" where
  "run env c ctx (Call_GetProject projectID) = typed (GetProject env c ctx projectID)"
| "run env c ctx (Call_GetCurrentUserProjects start limit asc) =
     typed (GetCurrentUserProjects env c ctx start limit asc)"
| "run env c ctx (Call_GetUserProjects username start limit asc) =
     typed (GetUserProjects env c ctx username start limit asc)"
| "run env c ctx (Call_GetOrgProjects orgname start limit asc) =
     typed (GetOrgProjects env c ctx orgname start limit asc)"
| "run env c ctx (Call_CreateCurrentUserProject req) =
     typed (CreateCurrentUserProject env c ctx req)"
| "run env c ctx (Call_CreateUserProject username req) =
     typed (CreateUserProject env c ctx username req)"
| "run env c ctx (Call_CreateOrgProject orgname req) =
     typed (CreateOrgProject env c ctx orgname req)"
| "run env c ctx (Call_DeleteCurrentUserProject projectName) =
     untyped (DeleteCurrentUserProject env c ctx projectName)"
| "run env c ctx (Call_DeleteUserProject username projectName) =
     untyped (DeleteUserProject env c ctx username projectName)"
| "run env c ctx (Call_DeleteOrgProject orgname projectName) =
     untyped (DeleteOrgProject env c ctx orgname projectName)"
| "run env c ctx (Call_ReconfigProject projectName) = untyped (ReconfigProject env c ctx projectName)"
| "run env c ctx (Call_GetUser userID) = typed (GetUser env c ctx userID)"
| "run env c ctx (Call_GetUsers start limit asc) = typed (GetUsers env c ctx start limit asc)"
| "run env c ctx (Call_CreateUser req) = typed (CreateUser env c ctx req)"
| "run env c ctx (Call_DeleteUser userName) = untyped (DeleteUser env c ctx userName)"
| "run env c ctx (Call_CreateUserLA userName req) = typed (CreateUserLA env c ctx userName req)"
| "run env c ctx (Call_DeleteUserLA userName laID) = untyped (DeleteUserLA env c ctx userName laID)"
| "run env c ctx (Call_CreateUserToken userName req) =
     typed (CreateUserToken env c ctx userName req)"
| "run env c ctx (Call_GetRun runID) = typed (GetRun env c ctx runID)"
| "run env c ctx (Call_GetRuns phaseFilter groups runGroups start limit asc) =
     typed (GetRuns env c ctx phaseFilter groups runGroups start limit asc)"
| "run env c ctx (Call_GetRemoteSource rsID) = typed (GetRemoteSource env c ctx rsID)"
| "run env c ctx (Call_GetRemoteSources start limit asc) =
     typed (GetRemoteSources env c ctx start limit asc)"
| "run env c ctx (Call_CreateRemoteSource req) = typed (CreateRemoteSource env c ctx req)"
| "run env c ctx (Call_DeleteRemoteSource name) = untyped (DeleteRemoteSource env c ctx name)"
| "run env c ctx (Call_CreateOrg req) = typed (CreateOrg env c ctx req)"
| "run env c ctx (Call_DeleteOrg orgName) = untyped (DeleteOrg env c ctx orgName)"

subsection \<open>Notions used to state the properties\<close>

text \<open>The results and the events of a call that returned.\<close>

fun returned :: "'a outcome \<Rightarrow> 'a option" where
  "returned (Returns x evs) = Some x"
| "returned (Panics p) = None"

fun events :: "'a outcome \<Rightarrow> event list" where
  "events (Returns x evs) = evs"
| "events (Panics p) = []"

text \<open>
  The request \<open>doRequest\<close> hands to the HTTP client when \<open>url.Parse\<close> gave \<open>u\<close>.
\<close>

definition sent_request ::
  "('p, 'r) stdlib \<Rightarrow> Client \<Rightarrow> Context \<Rightarrow> string \<Rightarrow> URL \<Rightarrow> Values \<Rightarrow> header \<Rightarrow>
     string option \<Rightarrow> request" where
  "sent_request env c ctx method u query hdr ibody =
     \<lparr>Method = method,
      RequestURL = URL_String env (u\<lparr>RawQuery := Values_Encode query\<rparr>),
      ReqHeader = [''Authorization'' \<mapsto> [''token '' @ token c]] ++ hdr,
      ReqBody = ibody,
      ReqContext = ctx\<rparr>"

text \<open>Success as the specification words it: a status code from 200 to 299.\<close>

definition is_2xx :: "response \<Rightarrow> bool" where
  "is_2xx resp \<longleftrightarrow> 200 \<le> StatusCode resp \<and> StatusCode resp \<le> 299"

subsection \<open>The resource surface of the specification\<close>

text \<open>
  Section 6 of the specification lists, for each operation, the method, the path
  and the query parameters; section 4.4 says how an operation is composed of an
  optional marshalling step and the request pipeline. These definitions follow
  the specification; \<open>run_is_composition\<close> below proves that the
  operations translated from the source agree with them.
\<close>

datatype delivery = ResponseOnly | IntoStruct | IntoPointer

fun surface_method :: "'p call \<Rightarrow> string" where
  "surface_method (Call_GetProject i) = ''GET''"
| "surface_method (Call_GetCurrentUserProjects s l a) = ''GET''"
| "surface_method (Call_GetUserProjects n s l a) = ''GET''"
| "surface_method (Call_GetOrgProjects n s l a) = ''GET''"
| "surface_method (Call_CreateCurrentUserProject r) = ''PUT''"
| "surface_method (Call_CreateUserProject n r) = ''PUT''"
| "surface_method (Call_CreateOrgProject n r) = ''PUT''"
| "surface_method (Call_DeleteCurrentUserProject pn) = ''DELETE''"
| "surface_method (Call_DeleteUserProject n pn) = ''DELETE''"
| "surface_method (Call_DeleteOrgProject n pn) = ''DELETE''"
| "surface_method (Call_ReconfigProject pn) = ''POST''"
| "surface_method (Call_GetUser i) = ''GET''"
| "surface_method (Call_GetUsers s l a) = ''GET''"
| "surface_method (Call_CreateUser r) = ''PUT''"
| "surface_method (Call_DeleteUser n) = ''DELETE''"
| "surface_method (Call_CreateUserLA n r) = ''PUT''"
| "surface_method (Call_DeleteUserLA n i) = ''DELETE''"
| "surface_method (Call_CreateUserToken n r) = ''PUT''"
| "surface_method (Call_GetRun i) = ''GET''"
| "surface_method (Call_GetRuns ps gs rs s l a) = ''GET''"
| "surface_method (Call_GetRemoteSource i) = ''GET''"
| "surface_method (Call_GetRemoteSources s l a) = ''GET''"
| "surface_method (Call_CreateRemoteSource r) = ''PUT''"
| "surface_method (Call_DeleteRemoteSource n) = ''DELETE''"
| "surface_method (Call_CreateOrg r) = ''PUT''"
| "surface_method (Call_DeleteOrg n) = ''DELETE''"

fun surface_path :: "'p call \<Rightarrow> string" where
  "surface_path (Call_GetProject i) = ''/project/'' @ i"
| "surface_path (Call_GetCurrentUserProjects s l a) = path_Join [''/'', ''user'', [], ''projects'']"
| "surface_path (Call_GetUserProjects n s l a) = path_Join [''/'', ''user'', n, ''projects'']"
| "surface_path (Call_GetOrgProjects n s l a) = path_Join [''/'', ''org'', n, ''projects'']"
| "surface_path (Call_CreateCurrentUserProject r) = path_Join [''/'', ''user'', [], ''projects'']"
| "surface_path (Call_CreateUserProject n r) = path_Join [''/'', ''user'', n, ''projects'']"
| "surface_path (Call_CreateOrgProject n r) = path_Join [''/'', ''org'', n, ''projects'']"
| "surface_path (Call_DeleteCurrentUserProject pn) = path_Join [''/projects'', ''user'', [], pn]"
| "surface_path (Call_DeleteUserProject n pn) = path_Join [''/projects'', ''user'', n, pn]"
| "surface_path (Call_DeleteOrgProject n pn) = path_Join [''/projects'', ''org'', n, pn]"
| "surface_path (Call_ReconfigProject pn) = ''/projects/'' @ pn @ ''/reconfig''"
| "surface_path (Call_GetUser i) = ''/user/'' @ i"
| "surface_path (Call_GetUsers s l a) = ''/users''"
| "surface_path (Call_CreateUser r) = ''/users''"
| "surface_path (Call_DeleteUser n) = ''/users/'' @ n"
| "surface_path (Call_CreateUserLA n r) = ''/users/'' @ n @ ''/linkedaccounts''"
| "surface_path (Call_DeleteUserLA n i) = ''/users/'' @ n @ ''/linkedaccounts/'' @ i"
| "surface_path (Call_CreateUserToken n r) = ''/users/'' @ n @ ''/tokens''"
| "surface_path (Call_GetRun i) = ''/run/'' @ i"
| "surface_path (Call_GetRuns ps gs rs s l a) = ''/runs''"
| "surface_path (Call_GetRemoteSource i) = ''/remotesource/'' @ i"
| "surface_path (Call_GetRemoteSources s l a) = ''/remotesources''"
| "surface_path (Call_CreateRemoteSource r) = ''/remotesources''"
| "surface_path (Call_DeleteRemoteSource n) = ''/remotesources/'' @ n"
| "surface_path (Call_CreateOrg r) = ''/orgs''"
| "surface_path (Call_DeleteOrg n) = ''/orgs/'' @ n"

text \<open>
  The encoded query string as the specification describes it: the pairs in the
  order of their keys, each filter value as a pair of its own in the caller's
  order, \<open>limit\<close> only when positive, \<open>asc\<close> with an empty value only when true,
  \<open>start\<close> only when not empty.
\<close>

definition query_pair :: "string \<Rightarrow> string \<Rightarrow> string" where
  "query_pair k v = k @ ''='' @ QueryEscape v"

definition expected_query ::
  "string list \<Rightarrow> string list \<Rightarrow> string list \<Rightarrow> string \<Rightarrow> int \<Rightarrow> bool \<Rightarrow> string" where
  "expected_query phases groups rungroups start limit asc =
     strings_Join
       ((if asc then [''asc=''] else [])
        @ map (query_pair ''group'') groups
        @ (if limit > 0 then [''limit='' @ strconv_Itoa limit] else [])
        @ map (query_pair ''phase'') phases
        @ map (query_pair ''rungroup'') rungroups
        @ (if start \<noteq> [] then [query_pair ''start'' start] else []))
       ''&''"

fun surface_query :: "'p call \<Rightarrow> string" where
  "surface_query (Call_GetCurrentUserProjects s l a) = expected_query [] [] [] s l a"
| "surface_query (Call_GetUserProjects n s l a) = expected_query [] [] [] s l a"
| "surface_query (Call_GetOrgProjects n s l a) = expected_query [] [] [] s l a"
| "surface_query (Call_GetUsers s l a) = expected_query [] [] [] s l a"
| "surface_query (Call_GetRuns ps gs rs s l a) = expected_query ps gs rs s l a"
| "surface_query (Call_GetRemoteSources s l a) = expected_query [] [] [] s l a"
| "surface_query other = []"

fun surface_payload :: "'p call \<Rightarrow> 'p option" where
  "surface_payload (Call_CreateCurrentUserProject r) = Some r"
| "surface_payload (Call_CreateUserProject n r) = Some r"
| "surface_payload (Call_CreateOrgProject n r) = Some r"
| "surface_payload (Call_CreateUser r) = Some r"
| "surface_payload (Call_CreateUserLA n r) = Some r"
| "surface_payload (Call_CreateUserToken n r) = Some r"
| "surface_payload (Call_CreateRemoteSource r) = Some r"
| "surface_payload (Call_CreateOrg r) = Some r"
| "surface_payload other = None"

fun surface_delivery :: "'p call \<Rightarrow> delivery" where
  "surface_delivery (Call_DeleteCurrentUserProject pn) = ResponseOnly"
| "surface_delivery (Call_DeleteUserProject n pn) = ResponseOnly"
| "surface_delivery (Call_DeleteOrgProject n pn) = ResponseOnly"
| "surface_delivery (Call_ReconfigProject pn) = ResponseOnly"
| "surface_delivery (Call_DeleteUser n) = ResponseOnly"
| "surface_delivery (Call_DeleteUserLA n i) = ResponseOnly"
| "surface_delivery (Call_DeleteRemoteSource n) = ResponseOnly"
| "surface_delivery (Call_DeleteOrg n) = ResponseOnly"
| "surface_delivery (Call_GetCurrentUserProjects s l a) = IntoPointer"
| "surface_delivery (Call_GetUserProjects n s l a) = IntoPointer"
| "surface_delivery (Call_GetOrgProjects n s l a) = IntoPointer"
| "surface_delivery (Call_GetUsers s l a) = IntoPointer"
| "surface_delivery (Call_GetRemoteSources s l a) = IntoPointer"
| "surface_delivery other = IntoStruct"

subsection \<open>Test doubles\<close>

text \<open>
  Stand-ins for the standard library and for the server, used to run the model on
  concrete inputs. \<open>stub_Parse\<close> knows absolute \<open>http\<close> URLs without query or
  fragment and refuses everything else; the payloads are strings, of which
  \<open><cyclic>\<close> cannot be marshalled; a result has two fields, an id and a name.
\<close>

definition stub_Parse :: "string \<Rightarrow> error + URL" where
  "stub_Parse s =
     (if take 7 s = ''http://'' then
        Inr \<lparr>Scheme = ''http'', Opaque = [], User = None,
             Host = takeWhile (\<lambda>ch. ch \<noteq> CHR ''/'') (drop 7 s),
             Path = dropWhile (\<lambda>ch. ch \<noteq> CHR ''/'') (drop 7 s),
             RawPath = [], ForceQuery = False, RawQuery = [], Fragment = []\<rparr>
      else Inl (Err ''missing protocol scheme''))"

definition stub_String :: "URL \<Rightarrow> string" where
  "stub_String u =
     Scheme u @ ''://'' @ Host u @ Path u
       @ (if ForceQuery u \<or> RawQuery u \<noteq> [] then CHR ''?'' # RawQuery u else [])"

definition stub_Marshal :: "string \<Rightarrow> error + string" where
  "stub_Marshal p = (if p = ''<cyclic>'' then Inl (Err ''json: unsupported value'') else Inr p)"

definition stub_Decode :: "body \<Rightarrow> string \<times> string \<Rightarrow> (string \<times> string) \<times> error option" where
  "stub_Decode b obj =
     (case body_err b of
        Some e \<Rightarrow> (obj, Some e)
      | None \<Rightarrow>
          if body_data b = ''{id:p1,name:n1}'' then ((''p1'', ''n1''), None)
          else if body_data b = ''{id:p1,name:5}''
          then ((''p1'', snd obj), Some (Err ''json: cannot unmarshal number into field name''))
          else (obj, Some (Err ''invalid character'')))"

definition stub_Decode_ptr ::
  "body \<Rightarrow> (string \<times> string) option \<Rightarrow> (string \<times> string) option \<times> error option" where
  "stub_Decode_ptr b ptr =
     (if body_err b = None \<and> body_data b = ''null'' then (None, None)
      else let (obj, err) = stub_Decode b (case ptr of None \<Rightarrow> ([], []) | Some x \<Rightarrow> x)
           in (Some obj, err))"

definition stub_env :: "(string, string \<times> string) stdlib" where
  "stub_env =
     \<lparr>url_Parse = stub_Parse, URL_String = stub_String, NewRequest_error = (\<lambda>m u. None),
      json_Marshal = stub_Marshal, json_Decode = stub_Decode,
      json_Decode_ptr = stub_Decode_ptr, zero_value = ([], [])\<rparr>"

text \<open>A server that answers every request alike, and a transport that fails.\<close>

definition respond :: "int \<Rightarrow> string \<Rightarrow> string \<Rightarrow> error option \<Rightarrow> http_Client" where
  "respond code status data err =
     (\<lambda>req. Inr \<lparr>StatusCode = code, Status = status, RespHeader = Map.empty,
                  Body = \<lparr>body_data = data, body_err = err\<rparr>\<rparr>)"

definition refuse :: "error \<Rightarrow> http_Client" where
  "refuse e = (\<lambda>req. Inl e)"

section \<open>Properties\<close>

subsection \<open>Marshal failures\<close>

text \<open>
  Claim C3. Every operation that carries a request body marshals the payload first:
  when \<open>json.Marshal\<close> fails, the operation returns a nil result, a nil response and
  the marshal error, and nothing has happened on the network (no request was built
  or sent).
\<close>

theorem marshal_failure_short_circuits:
  assumes "json_Marshal env req = Inl e"
  shows "createProject env c ctx ownertype ownername req = Returns (None, None, Some e) []
       \<and> CreateCurrentUserProject env c ctx req = Returns (None, None, Some e) []
       \<and> CreateUserProject env c ctx username req = Returns (None, None, Some e) []
       \<and> CreateOrgProject env c ctx orgname req = Returns (None, None, Some e) []
       \<and> CreateUser env c ctx req = Returns (None, None, Some e) []
       \<and> CreateUserLA env c ctx userName req = Returns (None, None, Some e) []
       \<and> CreateUserToken env c ctx userName req = Returns (None, None, Some e) []
       \<and> CreateRemoteSource env c ctx req = Returns (None, None, Some e) []
       \<and> CreateOrg env c ctx req = Returns (None, None, Some e) []"
  using assms
  by (simp add: createProject_def CreateCurrentUserProject_def CreateUserProject_def
      CreateOrgProject_def CreateUser_def CreateUserLA_def CreateUserToken_def
      CreateRemoteSource_def CreateOrg_def)

theorem marshal_failure_short_circuits_witness:
  "json_Marshal stub_env ''<cyclic>'' = Inl (Err ''json: unsupported value'')
   \<and> CreateUser stub_env (NewClient (respond 200 ''200 OK'' ''{id:p1,name:n1}'' None) ''http://gw/'' ''secret'')
        (Ctx ''c'') ''<cyclic>''
     = Returns (None, None, Some (Err ''json: unsupported value'')) []"
proof -
  have m: "json_Marshal stub_env ''<cyclic>'' = Inl (Err ''json: unsupported value'')"
    by (simp add: stub_env_def stub_Marshal_def)
  show ?thesis
    using m marshal_failure_short_circuits [OF m] by simp
qed

end
